theory Spec2Isabelle
  imports Complex_Main
begin

section \<open>JavaScript values of the dashboard client\<close>

text \<open>
  The sources under verification are the React dashboard of ZOBON, here its service layer
  \<^verbatim>\<open>services/api.js\<close>. Strings are
  sequences of 8-bit code units (\<^typ>\<open>string\<close>); a value decoded from a JSON body is one
  of the constructors below, \<open>JUndefined\<close> standing for a property that is absent.
\<close>

datatype js_value =
    JUndefined
  | JNull
  | JBool bool
  | JNumber real
  | JString string
  | JArray "js_value list"
  | JObject "(string \<times> js_value) list"

text \<open>An exception object: only \<open>name\<close> and \<open>message\<close> are read by the handlers.\<close>

record js_error =
  name :: string
  message :: string

definition new_Error :: "string \<Rightarrow> js_error" where
  "new_Error msg = \<lparr>name = ''Error'', message = msg\<rparr>"

text \<open>ToBoolean: what \<^verbatim>\<open>!x\<close> and \<^verbatim>\<open>x || y\<close> test.\<close>

fun truthy :: "js_value \<Rightarrow> bool" where
  "truthy JUndefined = False"
| "truthy JNull = False"
| "truthy (JBool b) = b"
| "truthy (JNumber r) = (r \<noteq> 0)"
| "truthy (JString s) = (s \<noteq> [])"
| "truthy (JArray xs) = True"
| "truthy (JObject fs) = True"

fun js_typeof :: "js_value \<Rightarrow> string" where
  "js_typeof JUndefined = ''undefined''"
| "js_typeof JNull = ''object''"
| "js_typeof (JBool b) = ''boolean''"
| "js_typeof (JNumber r) = ''number''"
| "js_typeof (JString s) = ''string''"
| "js_typeof (JArray xs) = ''object''"
| "js_typeof (JObject fs) = ''object''"

text \<open>
  Reading a named property \<^verbatim>\<open>v.k\<close>, for the keys the client reads (\<^verbatim>\<open>error\<close>,
  \<^verbatim>\<open>message\<close>, \<^verbatim>\<open>answer\<close>): an object gives the stored value or \<^verbatim>\<open>undefined\<close>, a
  primitive or an array gives \<^verbatim>\<open>undefined\<close>, and \<^verbatim>\<open>null\<close> and \<^verbatim>\<open>undefined\<close> raise a
  TypeError (\<open>None\<close>).
\<close>

fun js_prop :: "js_value \<Rightarrow> string \<Rightarrow> js_value option" where
  "js_prop JUndefined k = None"
| "js_prop JNull k = None"
| "js_prop (JObject fs) k = (case map_of fs k of Some v \<Rightarrow> Some v | None \<Rightarrow> Some JUndefined)"
| "js_prop v k = Some JUndefined"

text \<open>
  \<^verbatim>\<open>String.prototype.trim\<close> removes white space and line terminators at both ends. Among
  8-bit code units these are TAB, LF, VT, FF, CR, SPACE and NBSP.
\<close>

definition is_whitespace :: "char \<Rightarrow> bool" where
  "is_whitespace c =
     (let n = (of_char c :: nat) in (9 \<le> n \<and> n \<le> 13) \<or> n = 32 \<or> n = 160)"

definition js_trim :: "string \<Rightarrow> string" where
  "js_trim s = rev (dropWhile is_whitespace (rev (dropWhile is_whitespace s)))"

text \<open>\<^verbatim>\<open>String.prototype.includes\<close>: the pattern occurs as a contiguous substring.\<close>

fun starts_with :: "string \<Rightarrow> string \<Rightarrow> bool" where
  "starts_with s [] = True"
| "starts_with [] (p # ps) = False"
| "starts_with (c # cs) (p # ps) = (c = p \<and> starts_with cs ps)"

fun js_includes :: "string \<Rightarrow> string \<Rightarrow> bool" where
  "js_includes [] p = (p = [])"
| "js_includes (c # cs) p = (starts_with (c # cs) p \<or> js_includes cs p)"

text \<open>The decimal rendering of a number in a template literal, for an HTTP status.\<close>

fun string_of_nat :: "nat \<Rightarrow> string" where
  "string_of_nat n =
     (if n < 10 then [char_of (48 + n)]
      else string_of_nat (n div 10) @ [char_of (48 + n mod 10)])"

declare string_of_nat.simps [simp del]

section \<open>The fetch boundary\<close>

text \<open>
  \<^verbatim>\<open>fetch\<close> either rejects (a network failure is a TypeError, an abort of the
  controller's signal an AbortError) or is fulfilled with a response. \<open>json_body\<close> is the
  outcome of \<^verbatim>\<open>response.json()\<close>: it rejects when the body is not JSON.
  \<^verbatim>\<open>response.ok\<close> is true for a status in 200..299.
\<close>

record response =
  status :: nat
  statusText :: string
  json_body :: "js_error + js_value"

definition ok :: "response \<Rightarrow> bool" where
  "ok r = (200 \<le> status r \<and> status r \<le> 299)"

datatype fetch_outcome = Rejected js_error | Fulfilled response

text \<open>The constants of \<^verbatim>\<open>TIMEOUTS\<close>, in milliseconds.\<close>

definition STANDARD :: nat where "STANDARD = 60000"
definition EXTENDED :: nat where "EXTENDED = 20000"
definition ASSISTANT :: nat where "ASSISTANT = 45000"
definition HEALTH_CHECK :: nat where "HEALTH_CHECK = 5000"

section \<open>ApiService.request\<close>

text \<open>
  The options of a request that the callers set. The call made is the URL, the method and
  the time after which the controller aborts; the network answers it with an outcome.
\<close>

record req_options =
  timeout :: "nat option"
  http_method :: "string option"

record fetch_call =
  url :: string
  call_method :: string
  abort_after :: nat

record api_env =
  API_BASE_URL :: string
  fetch :: "fetch_call \<Rightarrow> fetch_outcome"

text \<open>\<^verbatim>\<open>options.timeout || TIMEOUTS.STANDARD\<close>: an absent or zero timeout is the standard one.\<close>

definition request_timeout :: "req_options \<Rightarrow> nat" where
  "request_timeout options =
     (case timeout options of
        None \<Rightarrow> STANDARD
      | Some t \<Rightarrow> if t = 0 then STANDARD else t)"

definition request_call :: "api_env \<Rightarrow> string \<Rightarrow> req_options \<Rightarrow> fetch_call" where
  "request_call env endpoint options =
     \<lparr>url = API_BASE_URL env @ endpoint,
      call_method = (case http_method options of None \<Rightarrow> ''GET'' | Some m \<Rightarrow> m),
      abort_after = request_timeout options\<rparr>"

text \<open>The \<^verbatim>\<open>try\<close> block: \<open>Inl\<close> is what it throws.\<close>

definition request_try :: "fetch_outcome \<Rightarrow> js_error + js_value" where
  "request_try outcome =
     (case outcome of
        Rejected e \<Rightarrow> Inl e
      | Fulfilled r \<Rightarrow>
          if \<not> ok r then Inl (new_Error (''HTTP error! status: '' @ string_of_nat (status r)))
          else (case json_body r of
                  Inl e \<Rightarrow> Inl e
                | Inr data \<Rightarrow> Inr (JObject [(''data'', data)])))"

text \<open>The \<^verbatim>\<open>catch\<close> block: an AbortError becomes a timeout error, anything else is rethrown.\<close>

definition request_catch :: "js_error \<Rightarrow> js_error" where
  "request_catch error =
     (if name error = ''AbortError'' then new_Error ''Request timeout - please try again''
      else error)"

definition request :: "api_env \<Rightarrow> string \<Rightarrow> req_options \<Rightarrow> js_error + js_value" where
  "request env endpoint options =
     (case request_try (fetch env (request_call env endpoint options)) of
        Inl error \<Rightarrow> Inl (request_catch error)
      | Inr result \<Rightarrow> Inr result)"

section \<open>askSQLAssistant\<close>

text \<open>
  An object literal keeps its own keys in insertion order; assigning an existing key keeps
  its place and replaces its value. \<^verbatim>\<open>{ question: normalizedQuestion, ...context }\<close>
  assigns the properties of \<^verbatim>\<open>context\<close> in order after \<^verbatim>\<open>question\<close>.
\<close>

fun obj_set :: "string \<Rightarrow> js_value \<Rightarrow> (string \<times> js_value) list \<Rightarrow> (string \<times> js_value) list" where
  "obj_set k v [] = [(k, v)]"
| "obj_set k v ((k', v') # kvs) =
     (if k = k' then (k, v) # kvs else (k', v') # obj_set k v kvs)"

definition spread_into ::
  "(string \<times> js_value) list \<Rightarrow> (string \<times> js_value) list \<Rightarrow> (string \<times> js_value) list" where
  "spread_into base context = foldl (\<lambda>obj (k, v). obj_set k v obj) base context"

definition MAX_RETRIES :: nat where "MAX_RETRIES = 2"
definition RETRY_DELAY :: nat where "RETRY_DELAY = 2000"

text \<open>
  What the function does to the outside, in order: a POST of the payload to
  \<^verbatim>\<open>${ASSISTANT_URL}/ask\<close>, or a wait of so many milliseconds.
\<close>

record ask_call =
  ask_url :: string
  payload :: "(string \<times> js_value) list"
  ask_abort_after :: nat

datatype event = Fetch ask_call | Wait nat

text \<open>
  The environment: the assistant's URL, ECMAScript's ToString (used where a value of the
  response is put into a message), and the outcome of the fetch of each attempt.
\<close>

record assistant_env =
  ASSISTANT_URL :: string
  to_string :: "js_value \<Rightarrow> string"
  ask_fetch :: "nat \<Rightarrow> ask_call \<Rightarrow> fetch_outcome"

text \<open>
  The guard \<^verbatim>\<open>!question || typeof question !== 'string' || !question.trim()\<close>;
  the last disjunct is only evaluated on a string.
\<close>

definition question_invalid :: "js_value \<Rightarrow> bool" where
  "question_invalid question =
     (\<not> truthy question \<or> js_typeof question \<noteq> ''string'' \<or>
      (case question of JString s \<Rightarrow> \<not> truthy (JString (js_trim s)) | _ \<Rightarrow> True))"

definition normalized :: "js_value \<Rightarrow> string" where
  "normalized question = (case question of JString s \<Rightarrow> js_trim s | _ \<Rightarrow> [])"

definition ask_request :: "assistant_env \<Rightarrow> js_value \<Rightarrow> (string \<times> js_value) list \<Rightarrow> ask_call" where
  "ask_request env question context =
     \<lparr>ask_url = ASSISTANT_URL env @ ''/ask'',
      payload = spread_into [(''question'', JString (normalized question))] context,
      ask_abort_after = ASSISTANT\<rparr>"

text \<open>
  The message of a response that is not ok:
  \<^verbatim>\<open>errorData.error || errorData.message || errorMessage\<close>, where a body that does not
  parse, or whose properties cannot be read, leaves the default (the inner \<^verbatim>\<open>catch {}\<close>).
\<close>

definition error_message_of :: "assistant_env \<Rightarrow> response \<Rightarrow> string" where
  "error_message_of env r =
     (let errorMessage = ''HTTP '' @ string_of_nat (status r) @ '': '' @ statusText r in
      case json_body r of
        Inl e \<Rightarrow> errorMessage
      | Inr errorData \<Rightarrow>
          (case js_prop errorData ''error'' of
             None \<Rightarrow> errorMessage
           | Some e \<Rightarrow>
               if truthy e then to_string env e
               else (case js_prop errorData ''message'' of
                       None \<Rightarrow> errorMessage
                     | Some m \<Rightarrow> if truthy m then to_string env m else errorMessage)))"

text \<open>
  The \<^verbatim>\<open>try\<close> block of one attempt: \<open>Inl\<close> is what it throws. Where the
  properties of \<^verbatim>\<open>data\<close> are read, \<^verbatim>\<open>data\<close> is an object or an array, so the
  reads do not fail and the last case is never taken.
\<close>

definition ask_try :: "assistant_env \<Rightarrow> fetch_outcome \<Rightarrow> js_error + js_value" where
  "ask_try env outcome =
     (case outcome of
        Rejected e \<Rightarrow> Inl e
      | Fulfilled r \<Rightarrow>
          if \<not> ok r then Inl (new_Error (''Assistant API error: '' @ error_message_of env r))
          else (case json_body r of
                  Inl e \<Rightarrow> Inl e
                | Inr data \<Rightarrow>
                    if \<not> truthy data \<or> js_typeof data \<noteq> ''object''
                    then Inl (new_Error ''Invalid response from assistant service'')
                    else (case (js_prop data ''error'', js_prop data ''answer'') of
                            (Some err, Some answer) \<Rightarrow>
                              if truthy err then Inl (new_Error (to_string env err))
                              else if \<not> truthy answer \<or> js_typeof answer \<noteq> ''string''
                              then Inl (new_Error ''Assistant returned no valid answer'')
                              else Inr (JObject [(''data'', data)])
                          | _ \<Rightarrow> Inl (new_Error ''Invalid response from assistant service''))))"

text \<open>The test of the \<^verbatim>\<open>catch\<close> block that decides on a retry.\<close>

definition is_network_error :: "js_error \<Rightarrow> bool" where
  "is_network_error error = (name error = ''TypeError'' \<and> js_includes (message error) ''fetch'')"

function askSQLAssistant ::
  "assistant_env \<Rightarrow> js_value \<Rightarrow> (string \<times> js_value) list \<Rightarrow> nat
     \<Rightarrow> (js_error + js_value) \<times> event list" where
  "askSQLAssistant env question context retryCount =
     (if question_invalid question
      then (Inl (new_Error ''Question must be a non-empty string''), [])
      else
        (let call = ask_request env question context in
         case ask_try env (ask_fetch env retryCount call) of
           Inr result \<Rightarrow> (Inr result, [Fetch call])
         | Inl error \<Rightarrow>
             if name error = ''AbortError''
             then (Inl (new_Error ''Assistant request timed out''), [Fetch call])
             else if is_network_error error
             then (if retryCount < MAX_RETRIES
                   then (case askSQLAssistant env question context (retryCount + 1) of
                           (result, events) \<Rightarrow> (result, Fetch call # Wait RETRY_DELAY # events))
                   else (Inl (new_Error (''Connection failed to assistant at '' @ ASSISTANT_URL env
                                          @ ''. Is the backend running?'')), [Fetch call]))
             else (Inl error, [Fetch call])))"
  by pat_completeness auto
termination
  by (relation "measure (\<lambda>(env, question, context, retryCount). MAX_RETRIES - retryCount)") auto

declare askSQLAssistant.simps [simp del]

text \<open>The requests of a run, in order.\<close>

fun fetches :: "event list \<Rightarrow> ask_call list" where
  "fetches [] = []"
| "fetches (Fetch c # evs) = c # fetches evs"
| "fetches (Wait n # evs) = fetches evs"

text \<open>What the \<^verbatim>\<open>catch\<close> block throws for an error it does not retry.\<close>

definition surfaced :: "js_error \<Rightarrow> js_error" where
  "surfaced error =
     (if name error = ''AbortError'' then new_Error ''Assistant request timed out'' else error)"

section \<open>The scoring and alerting core, from the specification\<close>

text \<open>
  The dashboard reads what a backend pipeline stores. The pipeline's code (Classifier
  Client, Scoring Engine, Alert Engine) is not among the sources; this section writes down
  what the specification says of it. Times are integers (milliseconds), scores are reals.
\<close>

text \<open>Modelled from the spec: the source of a mention (data model; the connectors are missing).\<close>

datatype mention_source = Forum | Video | News

text \<open>Modelled from the spec: RawMention of the data model (its producer is missing).\<close>

record RawMention =
  rm_id :: nat
  rm_brand :: string
  rm_source :: mention_source
  rm_text :: string
  rm_author_context :: string
  rm_published_at :: int
  rm_ingested_at :: int

text \<open>Modelled from the spec: the closed enum BiasCategory (the classifier is missing).\<close>

datatype BiasCategory = Urban | Elitist | Demographic | Gender

text \<open>Modelled from the spec: the sentiment enum of a ScoredMention (the classifier is missing).\<close>

datatype sentiment = Positive | Neutral | Negative

text \<open>
  Modelled from the spec: the response of the classifier boundary (the Classifier Client
  is missing): the bias categories that fired, each with its confidence, the sentiment with
  its confidence, and the classifier's confidence.
\<close>

record classifier_output =
  co_bias_categories :: "(BiasCategory \<times> real) list"
  co_sentiment :: sentiment
  co_sentiment_confidence :: real
  co_confidence :: real

text \<open>Modelled from the spec: the failures of \<^verbatim>\<open>classify\<close> (the Classifier Client is missing).\<close>

datatype classify_error = ClassifierUnavailable | ClassifierTimeout

text \<open>Modelled from the spec: ScoredMention of the data model (the Scoring Engine is missing).\<close>

record ScoredMention =
  sm_mention_id :: nat
  sm_trust_score :: real
  sm_bias_categories :: "BiasCategory set"
  sm_sentiment :: sentiment
  sm_sentiment_confidence :: real
  sm_classifier_confidence :: real
  sm_scored_at :: int

text \<open>
  Modelled from the spec: the configuration of the Scoring Engine (missing): the weight
  table keyed by BiasCategory, the scale of the negative-sentiment penalty, and the
  keyword-weighted lexical heuristic of the degraded path. The specification gives no
  values, so they are parameters.
\<close>

record scoring_config =
  bias_weight :: "BiasCategory \<Rightarrow> real"
  negative_penalty_scale :: real
  lexical_fallback :: "string \<Rightarrow> real"

text \<open>Modelled from the spec: "clamped to [0,100]" (the Scoring Engine is missing).\<close>

definition clamp_score :: "real \<Rightarrow> real" where
  "clamp_score x = max 0 (min 100 x)"

text \<open>
  Modelled from the spec: the penalty of the Scoring Engine (missing), which "scales with
  sentiment confidence when sentiment is negative, zero otherwise".
\<close>

definition negative_sentiment_penalty :: "scoring_config \<Rightarrow> classifier_output \<Rightarrow> real" where
  "negative_sentiment_penalty cfg out =
     (if co_sentiment out = Negative
      then negative_penalty_scale cfg * co_sentiment_confidence out
      else 0)"

text \<open>
  Modelled from the spec: the base of the trust score in the Scoring Engine (missing),
  100 minus the sum of weight times confidence over the categories that fired, minus the
  penalty.
\<close>

definition trust_base :: "scoring_config \<Rightarrow> classifier_output \<Rightarrow> real" where
  "trust_base cfg out =
     100 - (\<Sum>(c, conf) \<leftarrow> co_bias_categories out. bias_weight cfg c * conf)
         - negative_sentiment_penalty cfg out"

text \<open>
  Modelled from the spec: \<^verbatim>\<open>score\<close> of the Scoring Engine (missing). With a classifier
  output the trust score is the clamped base. On ClassifierUnavailable the degraded record
  is emitted: confidence 0, no bias category, neutral sentiment, the trust score from the
  lexical heuristic (kept within 0..100, the range of the field). The specification gives
  no degraded path for ClassifierTimeout, which is passed on. It does not say where
  scored-at comes from; the time of scoring is an argument.
\<close>

definition score ::
  "scoring_config \<Rightarrow> int \<Rightarrow> RawMention \<Rightarrow> classify_error + classifier_output
     \<Rightarrow> classify_error + ScoredMention" where
  "score cfg now m classified =
     (case classified of
        Inr out \<Rightarrow>
          Inr \<lparr>sm_mention_id = rm_id m,
               sm_trust_score = clamp_score (trust_base cfg out),
               sm_bias_categories = fst ` set (co_bias_categories out),
               sm_sentiment = co_sentiment out,
               sm_sentiment_confidence = co_sentiment_confidence out,
               sm_classifier_confidence = co_confidence out,
               sm_scored_at = now\<rparr>
      | Inl ClassifierUnavailable \<Rightarrow>
          Inr \<lparr>sm_mention_id = rm_id m,
               sm_trust_score = clamp_score (lexical_fallback cfg (rm_text m)),
               sm_bias_categories = {},
               sm_sentiment = Neutral,
               sm_sentiment_confidence = 0,
               sm_classifier_confidence = 0,
               sm_scored_at = now\<rparr>
      | Inl ClassifierTimeout \<Rightarrow> Inl ClassifierTimeout)"

text \<open>Modelled from the spec: the severity of an Alert (the Alert Engine is missing).\<close>

datatype severity = Low | Medium | High | Critical

text \<open>Modelled from the spec: the lifecycle states of an Alert (the Alert Engine is missing).\<close>

datatype alert_state = Open | Acknowledged | Resolved

text \<open>
  Modelled from the spec: Alert of the data model (the Alert Engine is missing). The
  dedup key is the triple of brand, bias type or none, and severity.
\<close>

record Alert =
  al_id :: nat
  al_brand :: string
  al_bias_type :: "BiasCategory option"
  trust_score_at_trigger :: real
  al_severity :: severity
  al_text_sample :: string
  triggered_at :: int
  al_state :: alert_state
  resolved_at :: "int option"

text \<open>Modelled from the spec: the deduplication key of the Alert Engine (missing).\<close>

definition dedup_key :: "Alert \<Rightarrow> string \<times> BiasCategory option \<times> severity" where
  "dedup_key a = (al_brand a, al_bias_type a, al_severity a)"

text \<open>
  Modelled from the spec: a trigger, the candidate alert that trigger evaluation hands to
  deduplication in the Alert Engine (missing).
\<close>

record trigger =
  tr_brand :: string
  tr_bias_type :: "BiasCategory option"
  tr_severity :: severity
  tr_trust_score :: real
  tr_text :: string
  tr_at :: int

text \<open>Modelled from the spec: the key of a trigger in the Alert Engine (missing).\<close>

definition trigger_key :: "trigger \<Rightarrow> string \<times> BiasCategory option \<times> severity" where
  "trigger_key tr = (tr_brand tr, tr_bias_type tr, tr_severity tr)"

text \<open>
  Modelled from the spec: the state of the Alert Engine (missing): the alerts, never
  deleted, and the dedup table with the time of the last trigger of each key.
\<close>

record engine =
  en_alerts :: "Alert list"
  last_trigger :: "string \<times> BiasCategory option \<times> severity \<Rightarrow> int option"

text \<open>Modelled from the spec: the Alert Engine (missing) before any trigger.\<close>

definition empty_engine :: engine where
  "empty_engine = \<lparr>en_alerts = [], last_trigger = (\<lambda>k. None)\<rparr>"

text \<open>Modelled from the spec: the Open alerts of a key in the Alert Engine (missing).\<close>

definition open_alerts :: "string \<times> BiasCategory option \<times> severity \<Rightarrow> engine \<Rightarrow> Alert list" where
  "open_alerts k e = filter (\<lambda>a. dedup_key a = k \<and> al_state a = Open) (en_alerts e)"

text \<open>Modelled from the spec: the alert that the Alert Engine (missing) creates for a trigger.\<close>

definition new_alert :: "nat \<Rightarrow> trigger \<Rightarrow> Alert" where
  "new_alert n tr =
     \<lparr>al_id = n, al_brand = tr_brand tr, al_bias_type = tr_bias_type tr,
      trust_score_at_trigger = tr_trust_score tr, al_severity = tr_severity tr,
      al_text_sample = tr_text tr, triggered_at = tr_at tr, al_state = Open,
      resolved_at = None\<rparr>"

text \<open>
  Modelled from the spec: whether a trigger falls in the cooldown window of the Open alert
  of its key in the Alert Engine (missing): less than the cooldown after the key's last
  trigger (the alert's own trigger time if the table has none).
\<close>

definition within_cooldown :: "int \<Rightarrow> trigger \<Rightarrow> engine \<Rightarrow> Alert \<Rightarrow> bool" where
  "within_cooldown cooldown tr e a =
     (tr_at tr < (case last_trigger e (trigger_key tr) of
                    Some t \<Rightarrow> t
                  | None \<Rightarrow> triggered_at a) + cooldown)"

text \<open>
  Modelled from the spec: deduplication and lazy automatic resolution in the Alert Engine
  (missing). No Open alert of the key: a new alert is created. An Open alert and the
  trigger within the window: its trust-score-at-trigger and text-sample are replaced. An
  Open alert whose window has passed: it is resolved with resolved-at set, and a new alert
  is created.
\<close>

definition handle_trigger :: "int \<Rightarrow> trigger \<Rightarrow> engine \<Rightarrow> engine" where
  "handle_trigger cooldown tr e =
     (let k = trigger_key tr;
          is_open = (\<lambda>a. dedup_key a = k \<and> al_state a = Open);
          created = new_alert (length (en_alerts e)) tr
      in case open_alerts k e of
           [] \<Rightarrow>
             \<lparr>en_alerts = en_alerts e @ [created],
              last_trigger = (last_trigger e)(k \<mapsto> tr_at tr)\<rparr>
         | a # others \<Rightarrow>
             if within_cooldown cooldown tr e a
             then \<lparr>en_alerts =
                     map (\<lambda>b. if is_open b
                               then b\<lparr>trust_score_at_trigger := tr_trust_score tr,
                                      al_text_sample := tr_text tr\<rparr>
                               else b) (en_alerts e),
                   last_trigger = (last_trigger e)(k \<mapsto> tr_at tr)\<rparr>
             else \<lparr>en_alerts =
                     map (\<lambda>b. if is_open b
                               then b\<lparr>al_state := Resolved, resolved_at := Some (tr_at tr)\<rparr>
                               else b) (en_alerts e) @ [created],
                   last_trigger = (last_trigger e)(k \<mapsto> tr_at tr)\<rparr>)"

text \<open>Modelled from the spec: the Alert Engine (missing) on a sequence of triggers.\<close>

fun process_triggers :: "int \<Rightarrow> trigger list \<Rightarrow> engine \<Rightarrow> engine" where
  "process_triggers cooldown [] e = e"
| "process_triggers cooldown (tr # trs) e =
     process_triggers cooldown trs (handle_trigger cooldown tr e)"

section \<open>Concrete inputs\<close>

text \<open>
  Errors, responses and environments that the examples below run the client on.
  \<open>plain_to_string\<close> only fills the environment's ToString field in the examples: it is
  ToString on strings and a placeholder elsewhere, and no example applies it.
\<close>

definition plain_to_string :: "js_value \<Rightarrow> string" where
  "plain_to_string v = (case v of JString s \<Rightarrow> s | _ \<Rightarrow> ''[object Object]'')"

definition abort_error :: js_error where
  "abort_error = \<lparr>name = ''AbortError'', message = ''signal is aborted without reason''\<rparr>"

definition fetch_error :: js_error where
  "fetch_error = \<lparr>name = ''TypeError'', message = ''Failed to fetch''\<rparr>"

definition syntax_error :: js_error where
  "syntax_error =
     \<lparr>name = ''SyntaxError'', message = ''Unexpected token < in JSON at position 0''\<rparr>"

definition html_response :: "nat \<Rightarrow> string \<Rightarrow> response" where
  "html_response code reason =
     \<lparr>status = code, statusText = reason, json_body = Inl syntax_error\<rparr>"

definition json_response :: "js_value \<Rightarrow> response" where
  "json_response v = \<lparr>status = 200, statusText = ''OK'', json_body = Inr v\<rparr>"

definition api_with :: "fetch_outcome \<Rightarrow> api_env" where
  "api_with outcome =
     \<lparr>API_BASE_URL = ''http://localhost:5001/api'', fetch = (\<lambda>call. outcome)\<rparr>"

definition no_options :: req_options where
  "no_options = \<lparr>timeout = None, http_method = None\<rparr>"

definition assistant_with :: "(nat \<Rightarrow> fetch_outcome) \<Rightarrow> assistant_env" where
  "assistant_with outcomes =
     \<lparr>ASSISTANT_URL = ''http://localhost:5002/api'', to_string = plain_to_string,
      ask_fetch = (\<lambda>n call. outcomes n)\<rparr>"

definition always :: "fetch_outcome \<Rightarrow> nat \<Rightarrow> fetch_outcome" where
  "always outcome n = outcome"

definition answer_body :: js_value where
  "answer_body = JObject [(''answer'', JString ''SELECT AVG(trust_score) FROM scores'')]"

text \<open>The network fails under the first attempt and answers the second.\<close>

definition flaky :: "nat \<Rightarrow> fetch_outcome" where
  "flaky n = (if n = 0 then Rejected fetch_error else Fulfilled (json_response answer_body))"

text \<open>
  A weight table, a penalty scale and a keyword heuristic for the scoring examples, and
  the adversarial classifier output: every category at confidence 1, negative sentiment at
  confidence 1.
\<close>

fun demo_weight :: "BiasCategory \<Rightarrow> real" where
  "demo_weight Urban = 50"
| "demo_weight Elitist = 40"
| "demo_weight Demographic = 40"
| "demo_weight Gender = 50"

definition demo_lexical :: "string \<Rightarrow> real" where
  "demo_lexical text =
     100 - (\<Sum>(keyword, weight) \<leftarrow> [(''only'', 20), (''elite'', 30)].
              if js_includes text keyword then weight else 0)"

definition demo_config :: scoring_config where
  "demo_config =
     \<lparr>bias_weight = demo_weight, negative_penalty_scale = 40, lexical_fallback = demo_lexical\<rparr>"

definition demo_mention :: RawMention where
  "demo_mention =
     \<lparr>rm_id = 17, rm_brand = ''Ola'', rm_source = Forum, rm_text = ''only for city riders'',
      rm_author_context = ''forum user'', rm_published_at = 1000, rm_ingested_at = 2000\<rparr>"

definition adversarial_output :: classifier_output where
  "adversarial_output =
     \<lparr>co_bias_categories = [(Urban, 1), (Elitist, 1), (Demographic, 1), (Gender, 1)],
      co_sentiment = Negative, co_sentiment_confidence = 1, co_confidence = 1\<rparr>"

text \<open>A trigger of the key (Ola, Urban, Critical) at a time, with a score and a text.\<close>

definition urban_trigger :: "int \<Rightarrow> real \<Rightarrow> string \<Rightarrow> trigger" where
  "urban_trigger time t sample =
     \<lparr>tr_brand = ''Ola'', tr_bias_type = Some Urban, tr_severity = Critical,
      tr_trust_score = t, tr_text = sample, tr_at = time\<rparr>"

section \<open>Lemmas on the client\<close>

lemma js_trim_empty_iff: "js_trim s = [] \<longleftrightarrow> (\<forall>c\<in>set s. is_whitespace c)"
proof
  assume "js_trim s = []"
  then have "dropWhile is_whitespace (rev (dropWhile is_whitespace s)) = []"
    by (simp add: js_trim_def)
  then have all: "\<forall>c\<in>set (dropWhile is_whitespace s). is_whitespace c"
    by (simp add: dropWhile_eq_Nil_conv)
  have "dropWhile is_whitespace s = []"
  proof (cases "dropWhile is_whitespace s")
    case Nil
    then show ?thesis .
  next
    case (Cons c cs)
    then have "\<not> is_whitespace c"
      using hd_dropWhile [of is_whitespace s] by simp
    with all Cons show ?thesis by simp
  qed
  then show "\<forall>c\<in>set s. is_whitespace c"
    by (simp add: dropWhile_eq_Nil_conv)
next
  assume "\<forall>c\<in>set s. is_whitespace c"
  then have "dropWhile is_whitespace s = []"
    by (simp add: dropWhile_eq_Nil_conv)
  then show "js_trim s = []"
    by (auto simp: js_trim_def dest: set_dropWhileD)
qed

lemma question_invalid_iff:
  "question_invalid question \<longleftrightarrow>
     (\<forall>s. question = JString s \<longrightarrow> (\<forall>c\<in>set s. is_whitespace c))"
  by (cases question) (auto simp: question_invalid_def js_trim_empty_iff)

lemma map_of_obj_set: "map_of (obj_set k v obj) = (map_of obj)(k \<mapsto> v)"
  by (induction obj) auto

lemma map_of_spread_into:
  "k \<notin> fst ` set ctx \<Longrightarrow> map_of (spread_into base ctx) k = map_of base k"
  unfolding spread_into_def
proof (induction ctx arbitrary: base)
  case Nil
  then show ?case by simp
next
  case (Cons p ps)
  obtain k' v' where p: "p = (k', v')" by (cases p)
  with Cons.prems have "k \<noteq> k'" and "k \<notin> fst ` set ps" by auto
  with Cons.IH [of "obj_set k' v' base"] p show ?case
    by (simp add: map_of_obj_set)
qed

text \<open>One attempt of \<^verbatim>\<open>askSQLAssistant\<close> on a question that passes the guard.\<close>

lemma ask_step:
  assumes "\<not> question_invalid question"
  shows "askSQLAssistant env question ctx retryCount =
     (let call = ask_request env question ctx in
      case ask_try env (ask_fetch env retryCount call) of
        Inr result \<Rightarrow> (Inr result, [Fetch call])
      | Inl error \<Rightarrow>
          if is_network_error error \<and> retryCount < MAX_RETRIES
          then (fst (askSQLAssistant env question ctx (retryCount + 1)),
                Fetch call # Wait RETRY_DELAY
                  # snd (askSQLAssistant env question ctx (retryCount + 1)))
          else if is_network_error error
          then (Inl (new_Error (''Connection failed to assistant at '' @ ASSISTANT_URL env
                                  @ ''. Is the backend running?'')), [Fetch call])
          else (Inl (surfaced error), [Fetch call]))"
  using assms
  apply (subst askSQLAssistant.simps)
  apply (auto simp: Let_def surfaced_def is_network_error_def split: sum.splits prod.splits)
  done

lemma ask_events:
  "set (snd (askSQLAssistant env question ctx retryCount))
     \<subseteq> {Fetch (ask_request env question ctx), Wait RETRY_DELAY}"
proof (induction env question ctx retryCount rule: askSQLAssistant.induct)
  case (1 env question ctx retryCount)
  show ?case
    apply (subst askSQLAssistant.simps)
    using 1
    apply (auto simp: Let_def split: sum.splits prod.splits if_splits)
    apply blast
    done
qed

lemma set_fetches: "set (fetches events) = {call. Fetch call \<in> set events}"
  by (induction events rule: fetches.induct) auto

lemma ask_fetches_same:
  "set (fetches (snd (askSQLAssistant env question ctx retryCount)))
     \<subseteq> {ask_request env question ctx}"
  using ask_events [of env question ctx retryCount] by (auto simp: set_fetches)

lemma valid_hi: "\<not> question_invalid (JString ''  hi '')"
  by (simp add: question_invalid_def js_trim_def is_whitespace_def)

lemma trim_hi: "js_trim ''  hi '' = ''hi''"
  by (simp add: js_trim_def is_whitespace_def)

section \<open>Lemmas on the core\<close>

lemma clamp_score_range: "0 \<le> clamp_score x \<and> clamp_score x \<le> 100"
  by (simp add: clamp_score_def)

lemma filter_map_same:
  assumes "\<And>b. P (f b) = P b"
  shows "filter P (map f xs) = map f (filter P xs)"
  using assms by (induction xs) auto

lemma filter_map_none:
  assumes "\<And>b. \<not> P (f b)"
  shows "filter P (map f xs) = []"
  using assms by (induction xs) auto

lemma filter_map_id:
  assumes "\<And>b. P (f b) \<Longrightarrow> f b = b" and "\<And>b. P b \<Longrightarrow> f b = b"
  shows "filter P (map f xs) = filter P xs"
  using assms by (induction xs) (auto, metis+)

lemma dedup_key_new_alert: "dedup_key (new_alert n tr) = trigger_key tr"
  by (simp add: dedup_key_def new_alert_def trigger_key_def)

lemma handle_trigger_open_alerts:
  assumes "length (open_alerts k e) \<le> 1"
  shows "length (open_alerts k (handle_trigger cooldown tr e)) \<le> 1"
proof (cases "open_alerts (trigger_key tr) e")
  case Nil
  show ?thesis
  proof (cases "k = trigger_key tr")
    case True
    with Nil show ?thesis
      by (simp add: handle_trigger_def open_alerts_def Let_def dedup_key_new_alert)
  next
    case False
    with Nil assms show ?thesis
      by (auto simp: handle_trigger_def open_alerts_def Let_def dedup_key_new_alert)
  qed
next
  case (Cons a others)
  show ?thesis
  proof (cases "within_cooldown cooldown tr e a")
    case True
    have "open_alerts k (handle_trigger cooldown tr e) =
          map (\<lambda>b. if dedup_key b = trigger_key tr \<and> al_state b = Open
                    then b\<lparr>trust_score_at_trigger := tr_trust_score tr, al_text_sample := tr_text tr\<rparr>
                    else b) (open_alerts k e)"
      using Cons True
      by (simp add: handle_trigger_def open_alerts_def Let_def)
         (rule filter_map_same, simp add: dedup_key_def)
    with assms show ?thesis by simp
  next
    case False
    show ?thesis
    proof (cases "k = trigger_key tr")
      case k: True
      have "filter (\<lambda>a. dedup_key a = k \<and> al_state a = Open)
              (map (\<lambda>b. if dedup_key b = trigger_key tr \<and> al_state b = Open
                         then b\<lparr>al_state := Resolved, resolved_at := Some (tr_at tr)\<rparr>
                         else b) (en_alerts e)) = []"
        by (rule filter_map_none) (simp add: k dedup_key_def)
      with Cons False show ?thesis
        by (simp add: handle_trigger_def open_alerts_def Let_def dedup_key_new_alert)
    next
      case k: False
      have "filter (\<lambda>a. dedup_key a = k \<and> al_state a = Open)
              (map (\<lambda>b. if dedup_key b = trigger_key tr \<and> al_state b = Open
                         then b\<lparr>al_state := Resolved, resolved_at := Some (tr_at tr)\<rparr>
                         else b) (en_alerts e)) = open_alerts k e"
        unfolding open_alerts_def
        by (rule filter_map_id) (use k in \<open>auto simp: dedup_key_def\<close>)
      with Cons False k assms show ?thesis
        by (simp add: handle_trigger_def open_alerts_def Let_def dedup_key_new_alert)
    qed
  qed
qed

lemma process_triggers_open_alerts:
  "length (open_alerts k e) \<le> 1 \<Longrightarrow> length (open_alerts k (process_triggers cooldown trs e)) \<le> 1"
proof (induction trs arbitrary: e)
  case Nil
  then show ?case by simp
next
  case (Cons tr trs)
  from Cons.prems have "length (open_alerts k (handle_trigger cooldown tr e)) \<le> 1"
    by (rule handle_trigger_open_alerts)
  then have "length (open_alerts k (process_triggers cooldown trs (handle_trigger cooldown tr e))) \<le> 1"
    by (rule Cons.IH)
  then show ?case by simp
qed

lemma handle_trigger_update:
  assumes "open_alerts (trigger_key tr) e = [a]" and "within_cooldown cooldown tr e a"
  shows "open_alerts (trigger_key tr) (handle_trigger cooldown tr e) =
           [a\<lparr>trust_score_at_trigger := tr_trust_score tr, al_text_sample := tr_text tr\<rparr>]
         \<and> length (en_alerts (handle_trigger cooldown tr e)) = length (en_alerts e)"
proof -
  let ?P = "\<lambda>a. dedup_key a = trigger_key tr \<and> al_state a = Open"
  let ?f = "\<lambda>b. if ?P b
                 then b\<lparr>trust_score_at_trigger := tr_trust_score tr, al_text_sample := tr_text tr\<rparr>
                 else b"
  have commute: "filter ?P (map ?f (en_alerts e)) = map ?f (filter ?P (en_alerts e))"
    by (rule filter_map_same) (simp add: dedup_key_def)
  have open_a: "filter ?P (en_alerts e) = [a]"
    using assms(1) by (simp add: open_alerts_def)
  then have "a \<in> set (filter ?P (en_alerts e))"
    by simp
  then have "?P a"
    by simp
  then have "map ?f [a] =
      [a\<lparr>trust_score_at_trigger := tr_trust_score tr, al_text_sample := tr_text tr\<rparr>]"
    by simp
  moreover have "en_alerts (handle_trigger cooldown tr e) = map ?f (en_alerts e)"
    using assms by (simp add: handle_trigger_def Let_def)
  ultimately show ?thesis
    using commute open_a by (simp add: open_alerts_def)
qed

lemma adversarial_score:
  "score demo_config 3000 demo_mention (Inr adversarial_output) =
     Inr \<lparr>sm_mention_id = 17, sm_trust_score = 0,
          sm_bias_categories = {Urban, Elitist, Demographic, Gender},
          sm_sentiment = Negative, sm_sentiment_confidence = 1,
          sm_classifier_confidence = 1, sm_scored_at = 3000\<rparr>"
  by (simp add: score_def demo_config_def demo_mention_def adversarial_output_def
      trust_base_def negative_sentiment_penalty_def clamp_score_def)

lemma first_alert:
  "process_triggers 900000 [urban_trigger 0 20 ''only for city riders''] empty_engine =
     \<lparr>en_alerts = [new_alert 0 (urban_trigger 0 20 ''only for city riders'')],
      last_trigger = (\<lambda>k. None)((''Ola'', Some Urban, Critical) \<mapsto> 0)\<rparr>"
  by (simp add: handle_trigger_def open_alerts_def empty_engine_def Let_def trigger_key_def
      urban_trigger_def)

text \<open>
  The scenario of the specification: a second mention two minutes after the first updates
  the alert; a third, twenty minutes after the first, resolves it and opens a new one.
\<close>

lemma cooldown_scenario:
  "map (\<lambda>a. (al_id a, al_state a, trust_score_at_trigger a, resolved_at a))
     (en_alerts (process_triggers 900000
        [urban_trigger 0 20 ''only for city riders'', urban_trigger 120000 25 ''not for villages'',
         urban_trigger 1200000 28 ''city people only'']
        empty_engine)) =
   [(0, Resolved, 25, Some 1200000), (1, Open, 28, None)]"
  by (simp add: handle_trigger_def open_alerts_def empty_engine_def Let_def trigger_key_def
      urban_trigger_def dedup_key_def new_alert_def within_cooldown_def)


section \<open>The claims\<close>

subsection \<open>C1: one Open alert per dedup key\<close>

text \<open>
  Claim C1. For every dedup key (brand, bias type or none, severity bucket) and every
  sequence of triggers processed by the Alert Engine, at most one alert of that key is
  Open; and a trigger that arrives while an Open alert of its key exists, within the
  cooldown window, replaces that alert's trust-score-at-trigger and text-sample and creates
  no alert. The Alert Engine is the one written down from the specification above.
\<close>

theorem at_most_one_open_alert:
  "length (open_alerts k (process_triggers cooldown trs empty_engine)) \<le> 1
   \<and> (open_alerts (trigger_key tr) e = [a] \<and> within_cooldown cooldown tr e a \<longrightarrow>
        open_alerts (trigger_key tr) (handle_trigger cooldown tr e) =
          [a\<lparr>trust_score_at_trigger := tr_trust_score tr, al_text_sample := tr_text tr\<rparr>]
        \<and> length (en_alerts (handle_trigger cooldown tr e)) = length (en_alerts e))"
proof -
  have "length (open_alerts k empty_engine) \<le> 1"
    by (simp add: open_alerts_def empty_engine_def)
  then show ?thesis
    using process_triggers_open_alerts handle_trigger_update by blast
qed


theorem at_most_one_open_alert_witness:
  "length (open_alerts (''Ola'', Some Urban, Critical)
      (process_triggers 900000
         [urban_trigger 0 20 ''only for city riders'', urban_trigger 120000 25 ''not for villages'']
         empty_engine)) \<le> 1
   \<and> open_alerts (''Ola'', Some Urban, Critical)
       (handle_trigger 900000 (urban_trigger 120000 25 ''not for villages'')
          (process_triggers 900000 [urban_trigger 0 20 ''only for city riders''] empty_engine)) =
       [(new_alert 0 (urban_trigger 0 20 ''only for city riders''))
          \<lparr>trust_score_at_trigger := 25, al_text_sample := ''not for villages''\<rparr>]
   \<and> length (en_alerts
       (handle_trigger 900000 (urban_trigger 120000 25 ''not for villages'')
          (process_triggers 900000 [urban_trigger 0 20 ''only for city riders''] empty_engine))) = 1"
proof -
  let ?first = "urban_trigger 0 20 ''only for city riders''"
  let ?second = "urban_trigger 120000 25 ''not for villages''"
  let ?e = "process_triggers 900000 [?first] empty_engine"
  have key: "trigger_key ?second = (''Ola'', Some Urban, Critical)"
    by (simp add: trigger_key_def urban_trigger_def)
  have open1: "open_alerts (trigger_key ?second) ?e = [new_alert 0 ?first]"
    unfolding first_alert
    by (simp add: open_alerts_def trigger_key_def dedup_key_def new_alert_def urban_trigger_def)
  have within: "within_cooldown 900000 ?second ?e (new_alert 0 ?first)"
    unfolding first_alert
    by (simp add: within_cooldown_def trigger_key_def urban_trigger_def)
  have len: "length (en_alerts ?e) = 1"
    unfolding first_alert by simp
  show ?thesis
    using at_most_one_open_alert
      [of "(''Ola'', Some Urban, Critical)" 900000 "[?first, ?second]" ?second ?e
          "new_alert 0 ?first"]
      open1 within len
    unfolding key by (simp add: urban_trigger_def)
qed


subsection \<open>C2: the trust score lies in 0..100\<close>

text \<open>
  Claim C2. For every mention, every weight table and penalty scale, and every classifier
  output (all categories at confidence 1 with negative sentiment included), \<open>score\<close>
  emits a record whose trust score lies in the closed interval from 0 to 100; so does the
  degraded path. The Scoring Engine is the one written down from the specification above.
\<close>

theorem trust_score_in_range:
  "(\<exists>sm. score cfg now m (Inr out) = Inr sm \<and> 0 \<le> sm_trust_score sm \<and> sm_trust_score sm \<le> 100)
   \<and> (\<exists>sm. score cfg now m (Inl ClassifierUnavailable) = Inr sm
          \<and> 0 \<le> sm_trust_score sm \<and> sm_trust_score sm \<le> 100)"
  by (simp add: score_def clamp_score_range)

theorem trust_score_in_range_witness:
  "\<exists>sm. score demo_config 3000 demo_mention (Inr adversarial_output) = Inr sm
         \<and> 0 \<le> sm_trust_score sm \<and> sm_trust_score sm \<le> 100"
  using trust_score_in_range [of demo_config 3000 demo_mention adversarial_output]
  by blast


subsection \<open>C9: what request returns and throws\<close>

text \<open>
  Claim C9, as amended. For every endpoint, \<^verbatim>\<open>request\<close> returns the parsed JSON body
  wrapped as \<^verbatim>\<open>{data}\<close> exactly when the response status is ok and the body parses as
  JSON; for a status that is not ok it throws the HTTP error, and for an AbortError it
  throws the request-timeout error; an ok response whose body does not parse throws the
  parse error. So no caller receives a result of a response that is not ok.
\<close>

theorem request_returns_only_parsed_ok_body:
  "(request env endpoint options = Inr v \<longleftrightarrow>
      (\<exists>r data. fetch env (request_call env endpoint options) = Fulfilled r \<and> ok r
                 \<and> json_body r = Inr data \<and> v = JObject [(''data'', data)]))
   \<and> (fetch env (request_call env endpoint options) = Fulfilled r \<and> \<not> ok r \<longrightarrow>
        request env endpoint options =
          Inl (new_Error (''HTTP error! status: '' @ string_of_nat (status r))))
   \<and> (fetch env (request_call env endpoint options) = Rejected e \<and> name e = ''AbortError'' \<longrightarrow>
        request env endpoint options = Inl (new_Error ''Request timeout - please try again''))
   \<and> (fetch env (request_call env endpoint options) = Fulfilled r \<and> ok r
        \<and> json_body r = Inl e \<longrightarrow>
        request env endpoint options = Inl (request_catch e))"
  by (auto simp: request_def request_try_def request_catch_def new_Error_def
      split: fetch_outcome.splits sum.splits if_splits)

theorem request_returns_only_parsed_ok_body_witness:
  "request (api_with (Fulfilled (json_response (JArray [])))) ''/brands'' no_options
     = Inr (JObject [(''data'', JArray [])])
   \<and> request (api_with (Fulfilled (html_response 404 ''Not Found''))) ''/brands'' no_options
     = Inl (new_Error ''HTTP error! status: 404'')
   \<and> request (api_with (Rejected abort_error)) ''/brands'' no_options
     = Inl (new_Error ''Request timeout - please try again'')"
proof -
  have s: "string_of_nat 404 = ''404''"
    by code_simp
  have 1: "fetch (api_with (Fulfilled (json_response (JArray []))))
             (request_call (api_with (Fulfilled (json_response (JArray [])))) ''/brands'' no_options)
           = Fulfilled (json_response (JArray []))"
    and 2: "fetch (api_with (Fulfilled (html_response 404 ''Not Found'')))
             (request_call (api_with (Fulfilled (html_response 404 ''Not Found''))) ''/brands'' no_options)
           = Fulfilled (html_response 404 ''Not Found'')"
    and 3: "fetch (api_with (Rejected abort_error))
             (request_call (api_with (Rejected abort_error)) ''/brands'' no_options)
           = Rejected abort_error"
    by (simp_all add: api_with_def)
  have ok1: "ok (json_response (JArray []))" and ok2: "\<not> ok (html_response 404 ''Not Found'')"
    by (simp_all add: ok_def json_response_def html_response_def)
  have a: "request (api_with (Fulfilled (json_response (JArray [])))) ''/brands'' no_options
     = Inr (JObject [(''data'', JArray [])])"
    using request_returns_only_parsed_ok_body
      [of "api_with (Fulfilled (json_response (JArray [])))" "''/brands''" no_options
          "JObject [(''data'', JArray [])]"] 1 ok1
    by (simp add: json_response_def)
  have b: "request (api_with (Fulfilled (html_response 404 ''Not Found''))) ''/brands'' no_options
     = Inl (new_Error ''HTTP error! status: 404'')"
    using request_returns_only_parsed_ok_body
      [of "api_with (Fulfilled (html_response 404 ''Not Found''))" "''/brands''" no_options
          _ "html_response 404 ''Not Found''"] 2 ok2 s
    by (simp add: html_response_def)
  have c: "request (api_with (Rejected abort_error)) ''/brands'' no_options
     = Inl (new_Error ''Request timeout - please try again'')"
    using request_returns_only_parsed_ok_body
      [of "api_with (Rejected abort_error)" "''/brands''" no_options _ _ abort_error] 3
    by (simp add: abort_error_def)
  from a b c show ?thesis by simp
qed

text \<open>
  Claim C9 as stated fails on \<^verbatim>\<open>request\<close>: a response of status 200 whose body is not
  JSON is ok, and the call throws the parse error instead of returning.
\<close>

theorem request_ok_status_counterexample:
  "ok (html_response 200 ''OK'')
   \<and> request (api_with (Fulfilled (html_response 200 ''OK''))) ''/brands'' no_options
       = Inl syntax_error"
  by (simp add: ok_def html_response_def request_def request_try_def request_catch_def
      api_with_def syntax_error_def)

subsection \<open>C10: the question guard of askSQLAssistant\<close>

text \<open>
  Claim C10, as amended. \<^verbatim>\<open>askSQLAssistant\<close> checks its argument before any request:
  an argument that is not a string, or a string that is empty or all white space, is
  rejected with the error "Question must be a non-empty string" and nothing is sent. For
  any other string a request is sent, every request of the call carries the same payload,
  and, when the context has no property named question, the question in that payload is
  the trimmed input.
\<close>

theorem askSQLAssistant_validates_question:
  "(question_invalid question \<longleftrightarrow>
      (\<forall>s. question = JString s \<longrightarrow> (\<forall>c\<in>set s. is_whitespace c)))
   \<and> (question_invalid question \<longrightarrow>
        askSQLAssistant env question ctx retryCount =
          (Inl (new_Error ''Question must be a non-empty string''), []))
   \<and> (question = JString s \<and> \<not> question_invalid question \<longrightarrow>
        (\<exists>events. snd (askSQLAssistant env question ctx retryCount) =
                     Fetch (ask_request env question ctx) # events)
        \<and> set (fetches (snd (askSQLAssistant env question ctx retryCount)))
            \<subseteq> {ask_request env question ctx}
        \<and> (''question'' \<notin> fst ` set ctx \<longrightarrow>
             map_of (payload (ask_request env question ctx)) ''question'' =
               Some (JString (js_trim s))))"
proof -
  have "\<exists>events. snd (askSQLAssistant env question ctx retryCount) =
                   Fetch (ask_request env question ctx) # events"
    if "\<not> question_invalid question"
    by (simp add: ask_step [OF that] Let_def split: sum.splits)
  moreover have "map_of (payload (ask_request env question ctx)) ''question'' =
                   Some (JString (js_trim s))"
    if "question = JString s" and "''question'' \<notin> fst ` set ctx"
    using that by (simp add: ask_request_def normalized_def map_of_spread_into)
  moreover have "askSQLAssistant env question ctx retryCount =
          (Inl (new_Error ''Question must be a non-empty string''), [])"
    if "question_invalid question"
    using that by (simp add: askSQLAssistant.simps)
  ultimately show ?thesis
    using question_invalid_iff [of question] ask_fetches_same [of env question ctx retryCount]
    by blast
qed

theorem askSQLAssistant_validates_question_witness:
  "askSQLAssistant (assistant_with flaky) (JString ''   '') [] 0 =
     (Inl (new_Error ''Question must be a non-empty string''), [])
   \<and> askSQLAssistant (assistant_with flaky) (JNumber 5) [] 0 =
     (Inl (new_Error ''Question must be a non-empty string''), [])
   \<and> map_of (payload (ask_request (assistant_with flaky) (JString ''  hi '')
                [(''chartType'', JString ''trust-trend'')])) ''question'' = Some (JString ''hi'')"
proof -
  have 1: "question_invalid (JString ''   '')" and 2: "question_invalid (JNumber 5)"
    by (simp_all add: question_invalid_def js_trim_def is_whitespace_def)
  have 3: "''question'' \<notin> fst ` set [(''chartType'', JString ''trust-trend'')]"
    by simp
  show ?thesis
    using askSQLAssistant_validates_question [of "JString ''   ''" "assistant_with flaky" "[]" 0] 1
      askSQLAssistant_validates_question [of "JNumber 5" "assistant_with flaky" "[]" 0] 2
      askSQLAssistant_validates_question [of "JString ''  hi ''" "assistant_with flaky"
        "[(''chartType'', JString ''trust-trend'')]" 0 "''  hi ''"] valid_hi 3 trim_hi
    by simp
qed

text \<open>
  Claim C10 as stated fails on \<^verbatim>\<open>askSQLAssistant\<close>: a context that has a property
  named question replaces the trimmed input in the payload that is sent.
\<close>

theorem payload_question_counterexample:
  "\<not> question_invalid (JString ''  hi '')
   \<and> fetches (snd (askSQLAssistant (assistant_with (always (Rejected abort_error)))
         (JString ''  hi '') [(''question'', JString ''other'')] 0)) =
       [\<lparr>ask_url = ''http://localhost:5002/api/ask'',
         payload = [(''question'', JString ''other'')],
         ask_abort_after = 45000\<rparr>]"
  by (simp add: valid_hi ask_step [OF valid_hi] Let_def assistant_with_def always_def
      ask_try_def abort_error_def is_network_error_def ask_request_def normalized_def
      spread_into_def ASSISTANT_def)

end
